theory Spec2Isabelle
  imports Complex_Main "HOL-Library.Multiset"
begin

section \<open>Traffic simulation on the A-2: shared data model\<close>

text \<open>
  The repository holds several variants of one discrete-time traffic simulation
  (\<^verbatim>\<open>atascos.py\<close>, \<^verbatim>\<open>trafico.py\<close>, \<^verbatim>\<open>traff.py\<close>, \<^verbatim>\<open>a2.py\<close>).
  Python floats are modelled as real numbers (exact arithmetic, no rounding);
  \<^verbatim>\<open>float("inf")\<close> is a separate constructor of the gap type.  Vehicles are Python
  objects that are mutated in place and compared by identity, so a vehicle is a
  reference (a natural number) into an object store, and a lane is a list of references.
  Exceptions are values of the type \<open>error\<close>.
\<close>

datatype error = IndexError | ValueError | ZeroDivisionError | TypeError | KeyError

datatype vtype = Car | Truck | Ambulance

type_synonym vid = nat

record vehicle =
  vtype :: vtype
  lane :: int
  x :: real
  v :: real
  priority :: int
  length_m :: real
  preferred_speed :: real
  accel :: real
  entry_time :: "real option"
  exit_time :: "real option"
  finished :: bool

record config =
  NUM_LANES :: nat
  ROAD_LENGTH_M :: real
  SIM_SECONDS :: real
  DT :: real
  ARRIVAL_INTERVAL :: real
  MAX_SPEED :: real
  SLOWDOWN_PROB :: real
  SAFE_TIME_HEADWAY :: real
  MIN_GAP :: real
  VEHICLE_LENGTH :: real
  SPEEDUP :: real

text \<open>The module-level constants of \<^verbatim>\<open>atascos.py\<close>, \<^verbatim>\<open>trafico.py\<close> and \<^verbatim>\<open>traff.py\<close>,
  as a parameter of the functions that read them.  \<open>ARRIVAL_INTERVAL\<close> is
  \<^verbatim>\<open>60.0 / ARRIVAL_RATE_PER_MIN\<close> and \<open>ROAD_LENGTH_M\<close> is \<^verbatim>\<open>L_KM * 1000.0\<close>.  A field
  that a module does not define (\<open>SPEEDUP\<close> in atascos; \<open>MAX_SPEED\<close>, \<open>VEHICLE_LENGTH\<close>
  and \<open>DT\<close> in traff, whose step is the frame duration) is read by none of its functions.\<close>

definition atascos_cfg :: config where
  "atascos_cfg = \<lparr>NUM_LANES = 3, ROAD_LENGTH_M = 60000, SIM_SECONDS = 3600, DT = 1,
     ARRIVAL_INTERVAL = 60 / 30, MAX_SPEED = 120 * 1000 / 3600, SLOWDOWN_PROB = 2 / 100,
     SAFE_TIME_HEADWAY = 18 / 10, MIN_GAP = 2, VEHICLE_LENGTH = 45 / 10, SPEEDUP = 1\<rparr>"

definition trafico_cfg :: config where
  "trafico_cfg = \<lparr>NUM_LANES = 3, ROAD_LENGTH_M = 60000, SIM_SECONDS = 7200, DT = 1,
     ARRIVAL_INTERVAL = 60 / 40, MAX_SPEED = 120 * 1000 / 3600, SLOWDOWN_PROB = 2 / 100,
     SAFE_TIME_HEADWAY = 18 / 10, MIN_GAP = 2, VEHICLE_LENGTH = 45 / 10, SPEEDUP = 20\<rparr>"

definition traff_cfg :: config where
  "traff_cfg = \<lparr>NUM_LANES = 3, ROAD_LENGTH_M = 60000, SIM_SECONDS = 7200, DT = 1 / 60,
     ARRIVAL_INTERVAL = 60 / 40, MAX_SPEED = 120 * 1000 / 3600, SLOWDOWN_PROB = 4 / 100,
     SAFE_TIME_HEADWAY = 18 / 10, MIN_GAP = 2, VEHICLE_LENGTH = 45 / 10, SPEEDUP = 100\<rparr>"

text \<open>The highway: the per-lane lists, the global list (\<^verbatim>\<open>self.all\<close>,
  \<^verbatim>\<open>self.all_vehicles\<close>; unused by \<^verbatim>\<open>traff.py\<close>) and the object store.\<close>

record highway =
  vehs :: "vid \<Rightarrow> vehicle"
  lanes :: "vid list list"
  allv :: "vid list"

subsection \<open>Python list primitives\<close>

text \<open>\<^verbatim>\<open>xs[i]\<close>: a negative index counts from the end, anything out of range raises.\<close>

definition py_idx :: "nat \<Rightarrow> int \<Rightarrow> error + nat" where
  "py_idx n i = (let j = (if i < 0 then int n + i else i)
                 in if 0 \<le> j \<and> j < int n then Inr (nat j) else Inl IndexError)"

text \<open>\<^verbatim>\<open>min(xs, key=f)\<close> and \<^verbatim>\<open>max(xs, key=f)\<close> return the first extremal element.\<close>

fun min_key :: "('a \<Rightarrow> real) \<Rightarrow> 'a list \<Rightarrow> 'a option" where
  "min_key f [] = None"
| "min_key f (a # as) = Some (foldl (\<lambda>b c. if f c < f b then c else b) a as)"

fun max_key :: "('a \<Rightarrow> real) \<Rightarrow> 'a list \<Rightarrow> 'a option" where
  "max_key f [] = None"
| "max_key f (a # as) = Some (foldl (\<lambda>b c. if f b < f c then c else b) a as)"

text \<open>Float division raises on a zero denominator.\<close>

definition py_div :: "real \<Rightarrow> real \<Rightarrow> error + real" where
  "py_div a b = (if b = 0 then Inl ZeroDivisionError else Inr (a / b))"

datatype gap = Fin real | PosInf

fun gap_gt :: "gap \<Rightarrow> real \<Rightarrow> bool" where
  "gap_gt PosInf r = True"
| "gap_gt (Fin g) r = (g > r)"

text \<open>Sequencing of steps that may raise.\<close>

definition ebind :: "error + 'a \<Rightarrow> ('a \<Rightarrow> error + 'b) \<Rightarrow> error + 'b" where
  "ebind m f = (case m of Inl e \<Rightarrow> Inl e | Inr a \<Rightarrow> f a)"

section \<open>The highway (\<^verbatim>\<open>class Highway\<close>)\<close>

text \<open>\<^verbatim>\<open>self.num_lanes\<close> is the length of \<^verbatim>\<open>self.lanes\<close>: the constructor builds one list
  per lane and no method changes the outer list.\<close>

definition num_lanes :: "highway \<Rightarrow> int" where
  "num_lanes hw = int (length (lanes hw))"

definition pos :: "highway \<Rightarrow> vid \<Rightarrow> real" where
  "pos hw j = x (vehs hw j)"

text \<open>\<^verbatim>\<open>Highway.add\<close> (trafico) and \<^verbatim>\<open>Highway.add_vehicle\<close> (atascos):
  append, stable sort by position, append to the global list.\<close>

definition add :: "highway \<Rightarrow> vid \<Rightarrow> error + highway" where
  "add hw i = ebind (py_idx (length (lanes hw)) (lane (vehs hw i))) (\<lambda>k.
     Inr (hw\<lparr>lanes := (lanes hw)[k := sort_key (pos hw) (lanes hw ! k @ [i])],
             allv := allv hw @ [i]\<rparr>))"

text \<open>\<^verbatim>\<open>Highway.add_vehicle\<close> of traff: no global list.\<close>

definition traff_add_vehicle :: "highway \<Rightarrow> vid \<Rightarrow> error + highway" where
  "traff_add_vehicle hw i = ebind (py_idx (length (lanes hw)) (lane (vehs hw i))) (\<lambda>k.
     Inr (hw\<lparr>lanes := (lanes hw)[k := sort_key (pos hw) (lanes hw ! k @ [i])]\<rparr>))"

text \<open>\<^verbatim>\<open>Highway.remove\<close> (trafico) and \<^verbatim>\<open>Highway.remove_vehicle\<close> (atascos):
  each of the two lists is guarded by its own membership test.\<close>

definition remove :: "highway \<Rightarrow> vid \<Rightarrow> error + highway" where
  "remove hw i = ebind (py_idx (length (lanes hw)) (lane (vehs hw i))) (\<lambda>k.
     let hw1 = (if i \<in> set (lanes hw ! k)
                then hw\<lparr>lanes := (lanes hw)[k := remove1 i (lanes hw ! k)]\<rparr> else hw)
     in Inr (if i \<in> set (allv hw1) then hw1\<lparr>allv := remove1 i (allv hw1)\<rparr> else hw1))"

text \<open>\<^verbatim>\<open>Highway.remove_vehicle\<close> of traff.\<close>

definition traff_remove_vehicle :: "highway \<Rightarrow> vid \<Rightarrow> error + highway" where
  "traff_remove_vehicle hw i = ebind (py_idx (length (lanes hw)) (lane (vehs hw i))) (\<lambda>k.
     Inr (if i \<in> set (lanes hw ! k)
          then hw\<lparr>lanes := (lanes hw)[k := remove1 i (lanes hw ! k)]\<rparr> else hw))"

text \<open>\<^verbatim>\<open>Highway.ahead\<close> / \<^verbatim>\<open>Highway.vehicle_ahead\<close>: the nearest vehicle of the same lane
  with a strictly greater position.\<close>

definition ahead :: "highway \<Rightarrow> vid \<Rightarrow> error + vid option" where
  "ahead hw i = ebind (py_idx (length (lanes hw)) (lane (vehs hw i))) (\<lambda>k.
     Inr (min_key (pos hw) (filter (\<lambda>j. pos hw j > pos hw i) (lanes hw ! k))))"

text \<open>The room at the entry of lane \<open>k\<close> as trafico and traff measure it when they
  insert a vehicle: the position of \<^verbatim>\<open>min(lane_list, key=lambda v: v.x)\<close>, the vehicle
  nearest to the start of the road; unbounded in an empty lane.\<close>

definition gap_at_entry :: "highway \<Rightarrow> nat \<Rightarrow> gap" where
  "gap_at_entry hw k = (case min_key (pos hw) (lanes hw ! k) of
       None \<Rightarrow> PosInf
     | Some first \<Rightarrow> Fin (pos hw first))"

subsection \<open>Lane change\<close>

text \<open>The part common to the three variants of the lane-change method: in the target
  lane, the nearest vehicle ahead, the nearest vehicle behind (or level), and the two gaps.\<close>

definition nearest_ahead :: "highway \<Rightarrow> vid \<Rightarrow> nat \<Rightarrow> vid option" where
  "nearest_ahead hw i target =
     min_key (pos hw) (filter (\<lambda>j. pos hw j > pos hw i) (lanes hw ! target))"

definition nearest_behind :: "highway \<Rightarrow> vid \<Rightarrow> nat \<Rightarrow> vid option" where
  "nearest_behind hw i target =
     max_key (pos hw) (filter (\<lambda>j. pos hw j \<le> pos hw i) (lanes hw ! target))"

definition gap_a :: "highway \<Rightarrow> vid \<Rightarrow> nat \<Rightarrow> gap" where
  "gap_a hw i target = (case nearest_ahead hw i target of
       Some a \<Rightarrow> Fin (x (vehs hw a) - length_m (vehs hw a) - x (vehs hw i))
     | None \<Rightarrow> PosInf)"

definition gap_b :: "highway \<Rightarrow> vid \<Rightarrow> nat \<Rightarrow> gap" where
  "gap_b hw i target = (case nearest_behind hw i target of
       Some b \<Rightarrow> Fin (x (vehs hw i) - (x (vehs hw b) + length_m (vehs hw b)))
     | None \<Rightarrow> PosInf)"

text \<open>The vehicle ahead in the target lane outranks the candidate.\<close>

definition outranked :: "highway \<Rightarrow> vid \<Rightarrow> nat \<Rightarrow> bool" where
  "outranked hw i target = (case nearest_ahead hw i target of
       Some a \<Rightarrow> priority (vehs hw i) < priority (vehs hw a)
     | None \<Rightarrow> False)"

text \<open>Appending to the target lane and sorting it, after \<^verbatim>\<open>veh.lane = target\<close>.\<close>

definition enter_lane :: "highway \<Rightarrow> vid \<Rightarrow> nat \<Rightarrow> highway" where
  "enter_lane hw i target =
     (let hw1 = hw\<lparr>vehs := (vehs hw)(i := (vehs hw i)\<lparr>lane := int target\<rparr>)\<rparr>
      in hw1\<lparr>lanes := (lanes hw1)[target := sort_key (pos hw1) (lanes hw1 ! target @ [i])]\<rparr>)"

text \<open>trafico: \<^verbatim>\<open>self.lanes[veh.lane].remove(veh)\<close> is not guarded.\<close>

definition trafico_move :: "highway \<Rightarrow> vid \<Rightarrow> nat \<Rightarrow> error + highway" where
  "trafico_move hw i target = ebind (py_idx (length (lanes hw)) (lane (vehs hw i))) (\<lambda>k.
     if i \<in> set (lanes hw ! k)
     then Inr (enter_lane (hw\<lparr>lanes := (lanes hw)[k := remove1 i (lanes hw ! k)]\<rparr>) i target)
     else Inl ValueError)"

text \<open>traff, \<^verbatim>\<open>_move_vehicle\<close>: the \<^verbatim>\<open>ValueError\<close> of the removal is swallowed.\<close>

definition traff_move_vehicle :: "highway \<Rightarrow> vid \<Rightarrow> nat \<Rightarrow> error + highway" where
  "traff_move_vehicle hw i target = ebind (py_idx (length (lanes hw)) (lane (vehs hw i))) (\<lambda>k.
     Inr (enter_lane (hw\<lparr>lanes := (lanes hw)[k := remove1 i (lanes hw ! k)]\<rparr>) i target))"

text \<open>atascos: the removal is guarded by a membership test, and the source lane
  \<^verbatim>\<open>self.lanes[target - d]\<close> is sorted as well.\<close>

definition atascos_move :: "highway \<Rightarrow> vid \<Rightarrow> nat \<Rightarrow> int \<Rightarrow> error + highway" where
  "atascos_move hw i target d = ebind (py_idx (length (lanes hw)) (lane (vehs hw i))) (\<lambda>k.
     let hw1 = (if i \<in> set (lanes hw ! k)
                then hw\<lparr>lanes := (lanes hw)[k := remove1 i (lanes hw ! k)]\<rparr> else hw);
         hw2 = enter_lane hw1 i target
     in ebind (py_idx (length (lanes hw2)) (int target - d)) (\<lambda>s.
          Inr (hw2\<lparr>lanes := (lanes hw2)[s := sort_key (pos hw2) (lanes hw2 ! s)]\<rparr>)))"

text \<open>The clearance that trafico and atascos require on both sides:
  \<^verbatim>\<open>max(MIN_GAP, veh.v * SAFE_TIME_HEADWAY / 2)\<close>.\<close>

definition lane_change_need :: "config \<Rightarrow> real \<Rightarrow> real" where
  "lane_change_need cfg sp = max (MIN_GAP cfg) (sp * SAFE_TIME_HEADWAY cfg / 2)"

text \<open>The distances below which the main loops try a lane change: trafico compares the
  distance to the vehicle ahead with \<^verbatim>\<open>veh.v * SAFE_TIME_HEADWAY\<close>, atascos with
  \<^verbatim>\<open>desired_gap = veh.v * SAFE_TIME_HEADWAY + MIN_GAP\<close>.\<close>

definition trafico_trigger_dist :: "config \<Rightarrow> real \<Rightarrow> real" where
  "trafico_trigger_dist cfg sp = sp * SAFE_TIME_HEADWAY cfg"

definition atascos_desired_gap :: "config \<Rightarrow> real \<Rightarrow> real" where
  "atascos_desired_gap cfg sp = sp * SAFE_TIME_HEADWAY cfg + MIN_GAP cfg"

text \<open>The body of the loop over \<^verbatim>\<open>d in (-1, 1)\<close> for a target lane inside the road:
  \<open>None\<close> is "go on with the next offset".\<close>

definition trafico_try_target :: "config \<Rightarrow> highway \<Rightarrow> vid \<Rightarrow> nat \<Rightarrow> (error + highway) option" where
  "trafico_try_target cfg hw i target =
     (let need = lane_change_need cfg (v (vehs hw i))
      in if gap_gt (gap_a hw i target) need \<and> gap_gt (gap_b hw i target) need
         then (if outranked hw i target then None else Some (trafico_move hw i target))
         else None)"

definition traff_try_target :: "config \<Rightarrow> highway \<Rightarrow> vid \<Rightarrow> nat \<Rightarrow> (error + highway) option" where
  "traff_try_target cfg hw i target =
     (let required = max (MIN_GAP cfg) (v (vehs hw i) * SAFE_TIME_HEADWAY cfg)
      in if vtype (vehs hw i) = Ambulance \<and> gap_gt (gap_a hw i target) (MIN_GAP cfg)
              \<and> gap_gt (gap_b hw i target) (MIN_GAP cfg)
         then Some (traff_move_vehicle hw i target)
         else if gap_gt (gap_a hw i target) required \<and> gap_gt (gap_b hw i target) required
         then (if outranked hw i target then None else Some (traff_move_vehicle hw i target))
         else None)"

text \<open>atascos: the priority comparison guards a \<^verbatim>\<open>pass\<close> and decides nothing.\<close>

definition atascos_try_target :: "config \<Rightarrow> highway \<Rightarrow> vid \<Rightarrow> nat \<Rightarrow> int \<Rightarrow> (error + highway) option" where
  "atascos_try_target cfg hw i target d =
     (let need = lane_change_need cfg (v (vehs hw i))
      in if gap_gt (gap_a hw i target) need \<and> gap_gt (gap_b hw i target) need
         then Some (atascos_move hw i target d)
         else None)"

text \<open>The loop over the offsets, with the body as a parameter.\<close>

fun try_offsets :: "(nat \<Rightarrow> int \<Rightarrow> (error + highway) option) \<Rightarrow> highway \<Rightarrow> vid \<Rightarrow> int list
    \<Rightarrow> error + (highway \<times> bool)" where
  "try_offsets body hw i [] = Inr (hw, False)"
| "try_offsets body hw i (d # ds) =
     (let target = lane (vehs hw i) + d
      in if target < 0 \<or> target \<ge> num_lanes hw then try_offsets body hw i ds
         else (case body (nat target) d of
                 None \<Rightarrow> try_offsets body hw i ds
               | Some (Inl e) \<Rightarrow> Inl e
               | Some (Inr hw') \<Rightarrow> Inr (hw', True)))"

definition trafico_try_lane_change :: "config \<Rightarrow> highway \<Rightarrow> vid \<Rightarrow> error + (highway \<times> bool)" where
  "trafico_try_lane_change cfg hw i =
     try_offsets (\<lambda>target d. trafico_try_target cfg hw i target) hw i [-1, 1]"

definition traff_try_lane_change :: "config \<Rightarrow> highway \<Rightarrow> vid \<Rightarrow> error + (highway \<times> bool)" where
  "traff_try_lane_change cfg hw i =
     try_offsets (\<lambda>target d. traff_try_target cfg hw i target) hw i [-1, 1]"

definition atascos_try_change_lane :: "config \<Rightarrow> highway \<Rightarrow> vid \<Rightarrow> error + (highway \<times> bool)" where
  "atascos_try_change_lane cfg hw i =
     try_offsets (\<lambda>target d. atascos_try_target cfg hw i target d) hw i [-1, 1]"

section \<open>The random module\<close>

text \<open>The generator is an abstract state with the two primitives of the \<^verbatim>\<open>random\<close>
  module that the simulation reaches: \<^verbatim>\<open>random()\<close> and \<^verbatim>\<open>_randbelow(n)\<close>, which
  returns a number below \<open>n\<close>.  Seeding fixes the initial state.  \<^verbatim>\<open>choices\<close>, \<^verbatim>\<open>shuffle\<close> and \<^verbatim>\<open>randint\<close> are written out
  over these primitives as the library defines them.\<close>

record 'g rng =
  rnd_random :: "'g \<Rightarrow> real \<times> 'g"
  rnd_randbelow :: "nat \<Rightarrow> 'g \<Rightarrow> nat \<times> 'g"

fun accumulate :: "real \<Rightarrow> real list \<Rightarrow> real list" where
  "accumulate s [] = []"
| "accumulate s (w # ws) = (s + w) # accumulate (s + w) ws"

text \<open>\<^verbatim>\<open>random.choices(population, weights)[0]\<close>: one call of \<^verbatim>\<open>random()\<close>, scaled by
  the total weight and located among the cumulative weights but the last.\<close>

definition py_choices :: "'g rng \<Rightarrow> 'a list \<Rightarrow> real list \<Rightarrow> 'g \<Rightarrow> 'a \<times> 'g" where
  "py_choices rnd population weights g =
     (let cum = accumulate 0 weights; (r, g') = rnd_random rnd g
      in (population ! length (takeWhile (\<lambda>c. c \<le> r * last cum) (butlast cum)), g'))"

text \<open>\<^verbatim>\<open>random.shuffle(xs)\<close>: for \<open>i\<close> from the last index down to 1, swap \<open>xs[i]\<close> with
  \<open>xs[_randbelow(i + 1)]\<close>.\<close>

fun shuffle_from :: "'g rng \<Rightarrow> nat \<Rightarrow> 'a list \<Rightarrow> 'g \<Rightarrow> 'a list \<times> 'g" where
  "shuffle_from rnd 0 xs g = (xs, g)"
| "shuffle_from rnd (Suc i) xs g =
     (let (j, g') = rnd_randbelow rnd (Suc i + 1) g
      in shuffle_from rnd i (xs[Suc i := xs ! j, j := xs ! Suc i]) g')"

definition py_shuffle :: "'g rng \<Rightarrow> 'a list \<Rightarrow> 'g \<Rightarrow> 'a list \<times> 'g" where
  "py_shuffle rnd xs g = shuffle_from rnd (length xs - 1) xs g"

text \<open>\<^verbatim>\<open>random.randint(a, b)\<close> for \<open>a \<le> b\<close>.\<close>

definition py_randint :: "'g rng \<Rightarrow> int \<Rightarrow> int \<Rightarrow> 'g \<Rightarrow> int \<times> 'g" where
  "py_randint rnd a b g = (let (j, g') = rnd_randbelow rnd (nat (b - a + 1)) g in (a + int j, g'))"

section \<open>Speed control\<close>

text \<open>The shape shared by the three car-following updates: brake by at most \<open>dec\<close>
  towards a lower target, accelerate by at most \<open>acc\<close> towards a higher one.\<close>

definition adjust :: "real \<Rightarrow> real \<Rightarrow> real \<Rightarrow> real \<Rightarrow> real" where
  "adjust sp target dec acc =
     (if sp > target then sp - min (sp - target) dec else sp + min (target - sp) acc)"

text \<open>The random slowdown, given the value \<open>r\<close> drawn by \<^verbatim>\<open>random.random()\<close>.\<close>

definition slowdown :: "config \<Rightarrow> real \<Rightarrow> real \<Rightarrow> real" where
  "slowdown cfg r sp = (if r < SLOWDOWN_PROB cfg then max 0 (sp - 3) else sp)"

definition set_v :: "highway \<Rightarrow> vid \<Rightarrow> real \<Rightarrow> highway" where
  "set_v hw i sp = hw\<lparr>vehs := (vehs hw)(i := (vehs hw i)\<lparr>v := sp\<rparr>)\<rparr>"

text \<open>\<^verbatim>\<open>veh.x += veh.v * dt\<close>\<close>

definition integrate :: "real \<Rightarrow> highway \<Rightarrow> vid \<Rightarrow> highway" where
  "integrate dt hw i =
     hw\<lparr>vehs := (vehs hw)(i := (vehs hw i)\<lparr>x := x (vehs hw i) + v (vehs hw i) * dt\<rparr>)\<rparr>"

text \<open>The distance to the vehicle ahead as the car-following code measures it.\<close>

definition follow_gap :: "highway \<Rightarrow> vid \<Rightarrow> vid \<Rightarrow> real" where
  "follow_gap hw i a = x (vehs hw a) - (x (vehs hw i) + length_m (vehs hw i))"

subsection \<open>The gap-to-speed conversions\<close>

definition trafico_safe_v :: "config \<Rightarrow> real \<Rightarrow> error + real" where
  "trafico_safe_v cfg g = py_div g (SAFE_TIME_HEADWAY cfg)"

definition atascos_safe_v :: "config \<Rightarrow> real \<Rightarrow> error + real" where
  "atascos_safe_v cfg g = py_div g (max (1 / 10 ^ 6) (SAFE_TIME_HEADWAY cfg))"

definition traff_safe_v :: "config \<Rightarrow> real \<Rightarrow> error + real" where
  "traff_safe_v cfg g = py_div g (max (1 / 10) (SAFE_TIME_HEADWAY cfg))"

section \<open>trafico.py\<close>

definition trafico_priority :: "vtype \<Rightarrow> int" where
  "trafico_priority ty = (case ty of Car \<Rightarrow> 1 | Truck \<Rightarrow> 0 | Ambulance \<Rightarrow> 2)"

definition trafico_max_speed :: "config \<Rightarrow> vtype \<Rightarrow> real" where
  "trafico_max_speed cfg ty = (case ty of Car \<Rightarrow> MAX_SPEED cfg
     | Truck \<Rightarrow> MAX_SPEED cfg * (7 / 10) | Ambulance \<Rightarrow> MAX_SPEED cfg * (11 / 10))"

text \<open>\<^verbatim>\<open>Vehicle(lane, vtype)\<close>; the fields \<open>preferred_speed\<close> and \<open>accel\<close> belong to
  traff and are filled with the values trafico uses in their place.\<close>

definition trafico_Vehicle :: "config \<Rightarrow> int \<Rightarrow> vtype \<Rightarrow> vehicle" where
  "trafico_Vehicle cfg l ty = \<lparr>vtype = ty, lane = l, x = 0,
     v = trafico_max_speed cfg ty * (6 / 10), priority = trafico_priority ty,
     length_m = VEHICLE_LENGTH cfg, preferred_speed = trafico_max_speed cfg ty, accel = 3 / 2,
     entry_time = None, exit_time = None, finished = False\<rparr>"

text \<open>The new speed of vehicle \<open>i\<close> given the vehicle ahead found by \<^verbatim>\<open>highway.ahead\<close>.\<close>

definition trafico_follow :: "config \<Rightarrow> highway \<Rightarrow> vid \<Rightarrow> vid option \<Rightarrow> error + real" where
  "trafico_follow cfg hw i ah =
     (let ve = vehs hw i; top = trafico_max_speed cfg (vtype ve)
      in case ah of
           Some a \<Rightarrow> ebind (trafico_safe_v cfg (follow_gap hw i a)) (\<lambda>safe_v.
             Inr (adjust (v ve) (min safe_v top) (6 * DT cfg) (3 / 2 * DT cfg)))
         | None \<Rightarrow> Inr (v ve + min (top - v ve) (3 / 2 * DT cfg)))"

text \<open>First part of the loop body: the lane change, tried when the vehicle ahead is
  closer than the headway distance.\<close>

definition trafico_lane_phase :: "config \<Rightarrow> highway \<Rightarrow> vid \<Rightarrow> error + highway" where
  "trafico_lane_phase cfg hw i = ebind (ahead hw i) (\<lambda>ah.
     case ah of
       Some a \<Rightarrow> if follow_gap hw i a < trafico_trigger_dist cfg (v (vehs hw i))
                 then ebind (trafico_try_lane_change cfg hw i) (\<lambda>res. Inr (fst res))
                 else Inr hw
     | None \<Rightarrow> Inr hw)"

text \<open>Second part: the vehicle ahead is looked up again and the speed updated.\<close>

definition trafico_speed_phase :: "config \<Rightarrow> highway \<Rightarrow> vid \<Rightarrow> error + highway" where
  "trafico_speed_phase cfg hw i = ebind (ahead hw i) (\<lambda>ah.
     ebind (trafico_follow cfg hw i ah) (\<lambda>sp. Inr (set_v hw i sp)))"

text \<open>Last part: leaving the road.  \<open>st\<close> is the dictionary \<^verbatim>\<open>stats\<close>.\<close>

definition trafico_exit_phase :: "config \<Rightarrow> real \<Rightarrow> highway \<times> (vtype \<Rightarrow> vid list) \<Rightarrow> vid
    \<Rightarrow> error + highway \<times> (vtype \<Rightarrow> vid list)" where
  "trafico_exit_phase cfg t hs i = (case hs of (hw, st) \<Rightarrow>
     if x (vehs hw i) \<ge> ROAD_LENGTH_M cfg
     then (let ve = (vehs hw i)\<lparr>exit_time := Some t, finished := True\<rparr>;
               hw1 = hw\<lparr>vehs := (vehs hw)(i := ve)\<rparr>;
               st1 = st(vtype ve := st (vtype ve) @ [i])
           in ebind (remove hw1 i) (\<lambda>hw2. Inr (hw2, st1)))
     else Inr (hw, st))"

text \<open>The whole loop body for one vehicle, at time \<open>t\<close>, with \<open>r\<close> the value drawn.\<close>

definition trafico_visit :: "config \<Rightarrow> real \<Rightarrow> real \<Rightarrow> highway \<times> (vtype \<Rightarrow> vid list) \<Rightarrow> vid
    \<Rightarrow> error + highway \<times> (vtype \<Rightarrow> vid list)" where
  "trafico_visit cfg t r hs i = (case hs of (hw, st) \<Rightarrow>
     ebind (trafico_lane_phase cfg hw i) (\<lambda>hw1.
     ebind (trafico_speed_phase cfg hw1 i) (\<lambda>hw2.
       let hw3 = set_v hw2 i (slowdown cfg r (v (vehs hw2 i)));
           hw4 = integrate (DT cfg) hw3 i
       in trafico_exit_phase cfg t (hw4, st) i)))"


subsection \<open>The main loop of trafico\<close>

text \<open>The simulation state of \<^verbatim>\<open>run_sim\<close>: the highway, \<^verbatim>\<open>stats\<close>, the class
  attribute \<^verbatim>\<open>Vehicle._next_id\<close>, the generator and \<^verbatim>\<open>next_arrival\<close>.\<close>

record 'g tsim =
  th :: highway
  tst :: "vtype \<Rightarrow> vid list"
  tid :: nat
  tgen :: 'g
  tnext :: real

text \<open>A new vehicle may enter lane \<open>k\<close>: the lane is empty, or
  \<^verbatim>\<open>first.x > VEHICLE_LENGTH + MIN_GAP\<close> for its rearmost vehicle.\<close>

definition trafico_can_enter :: "config \<Rightarrow> highway \<Rightarrow> nat \<Rightarrow> bool" where
  "trafico_can_enter cfg hw k = gap_gt (gap_at_entry hw k) (VEHICLE_LENGTH cfg + MIN_GAP cfg)"

text \<open>The loop over the shuffled lanes: the vehicle is created in the first lane with
  room; when no lane has room nothing is created.\<close>

fun trafico_place :: "config \<Rightarrow> real \<Rightarrow> vtype \<Rightarrow> highway \<times> nat \<Rightarrow> nat list \<Rightarrow> error + highway \<times> nat" where
  "trafico_place cfg t ty hn [] = Inr hn"
| "trafico_place cfg t ty hn (l # ls) = (case hn of (hw, n) \<Rightarrow>
     ebind (py_idx (length (lanes hw)) (int l)) (\<lambda>k.
       if trafico_can_enter cfg hw k
       then (let ve = (trafico_Vehicle cfg (int l) ty)\<lparr>entry_time := Some t\<rparr>
             in ebind (add (hw\<lparr>vehs := (vehs hw)(n := ve)\<rparr>) n) (\<lambda>hw'. Inr (hw', Suc n)))
       else trafico_place cfg t ty hn ls))"

definition trafico_arrival :: "config \<Rightarrow> 'g rng \<Rightarrow> real \<Rightarrow> 'g tsim \<Rightarrow> error + 'g tsim" where
  "trafico_arrival cfg rnd t s =
     (if t \<ge> tnext s
      then (let (ty, g1) = py_choices rnd [Car, Truck, Ambulance] [85 / 100, 13 / 100, 2 / 100] (tgen s);
                (ls, g2) = py_shuffle rnd [0..<NUM_LANES cfg] g1
            in ebind (trafico_place cfg t ty (th s, tid s) ls) (\<lambda>hn.
                 Inr (s\<lparr>th := fst hn, tid := snd hn, tgen := g2,
                        tnext := tnext s + ARRIVAL_INTERVAL cfg\<rparr>)))
      else Inr s)"

text \<open>The loop over a copy of one lane; each visit draws one random number.\<close>

fun trafico_visit_lane :: "config \<Rightarrow> 'g rng \<Rightarrow> real \<Rightarrow> vid list \<Rightarrow> 'g tsim \<Rightarrow> error + 'g tsim" where
  "trafico_visit_lane cfg rnd t [] s = Inr s"
| "trafico_visit_lane cfg rnd t (i # is) s =
     (let (r, g') = rnd_random rnd (tgen s)
      in ebind (trafico_visit cfg t r (th s, tst s) i) (\<lambda>hs.
           trafico_visit_lane cfg rnd t is (s\<lparr>th := fst hs, tst := snd hs, tgen := g'\<rparr>)))"

fun trafico_lanes_loop :: "config \<Rightarrow> 'g rng \<Rightarrow> real \<Rightarrow> nat list \<Rightarrow> 'g tsim \<Rightarrow> error + 'g tsim" where
  "trafico_lanes_loop cfg rnd t [] s = Inr s"
| "trafico_lanes_loop cfg rnd t (l # ls) s =
     ebind (py_idx (length (lanes (th s))) (int l)) (\<lambda>k.
     ebind (trafico_visit_lane cfg rnd t (lanes (th s) ! k) s) (\<lambda>s'.
       trafico_lanes_loop cfg rnd t ls s'))"

definition trafico_dynamics :: "config \<Rightarrow> 'g rng \<Rightarrow> real \<Rightarrow> 'g tsim \<Rightarrow> error + 'g tsim" where
  "trafico_dynamics cfg rnd t s = trafico_lanes_loop cfg rnd t [0..<NUM_LANES cfg] s"

definition trafico_tick :: "config \<Rightarrow> 'g rng \<Rightarrow> real \<Rightarrow> 'g tsim \<Rightarrow> error + 'g tsim" where
  "trafico_tick cfg rnd t s = ebind (trafico_arrival cfg rnd t s) (trafico_dynamics cfg rnd t)"

text \<open>The drawing at the end of a tick reads the wall clock: once, and a second time
  when it redraws; the period \<^verbatim>\<open>1 / SPEEDUP\<close> is computed each time.  \<open>clock\<close> is the sequence of the values \<^verbatim>\<open>time.time()\<close> returns,
  \<open>vz = (start_real, number of readings so far)\<close>.\<close>

definition trafico_redraw :: "config \<Rightarrow> (nat \<Rightarrow> real) \<Rightarrow> real \<times> nat \<Rightarrow> error + real \<times> nat" where
  "trafico_redraw cfg clock vz = (case vz of (start_real, c) \<Rightarrow>
     ebind (py_div 1 (SPEEDUP cfg)) (\<lambda>period.
       Inr (if clock c - start_real \<ge> period then (clock (c + 1), c + 2)
            else (start_real, c + 1))))"

text \<open>\<^verbatim>\<open>while t < SIM_SECONDS\<close>, with fuel: \<open>None\<close> when the fuel runs out before the
  loop ends.\<close>

fun trafico_loop :: "nat \<Rightarrow> config \<Rightarrow> 'g rng \<Rightarrow> (nat \<Rightarrow> real) \<Rightarrow> real \<Rightarrow> 'g tsim \<Rightarrow> real \<times> nat
    \<Rightarrow> (error + 'g tsim) option" where
  "trafico_loop 0 cfg rnd clock t s vz = (if t < SIM_SECONDS cfg then None else Some (Inr s))"
| "trafico_loop (Suc n) cfg rnd clock t s vz =
     (if t < SIM_SECONDS cfg
      then (case trafico_tick cfg rnd t s of
              Inl e \<Rightarrow> Some (Inl e)
            | Inr s' \<Rightarrow>
                (case trafico_redraw cfg clock vz of
                   Inl e \<Rightarrow> Some (Inl e)
                 | Inr vz' \<Rightarrow> trafico_loop n cfg rnd clock (t + DT cfg) s' vz'))
      else Some (Inr s))"

definition empty_vehicle :: vehicle where
  "empty_vehicle = \<lparr>vtype = Car, lane = 0, x = 0, v = 0, priority = 0, length_m = 0,
     preferred_speed = 0, accel = 0, entry_time = None, exit_time = None, finished = False\<rparr>"

text \<open>\<^verbatim>\<open>Highway(length, num_lanes)\<close>: empty lanes; the store has no object yet.\<close>

definition new_highway :: "nat \<Rightarrow> highway" where
  "new_highway n = \<lparr>vehs = (\<lambda>_. empty_vehicle), lanes = replicate n [], allv = []\<rparr>"

definition trafico_init :: "config \<Rightarrow> 'g \<Rightarrow> 'g tsim" where
  "trafico_init cfg g = \<lparr>th = new_highway (NUM_LANES cfg), tst = (\<lambda>_. []), tid = 1, tgen = g,
     tnext = 0\<rparr>"

subsection \<open>The report of trafico\<close>

text \<open>\<^verbatim>\<open>veh.exit_time - veh.entry_time\<close>; either may still be \<^verbatim>\<open>None\<close>.\<close>

definition travel_time :: "vehicle \<Rightarrow> error + real" where
  "travel_time ve = (case (exit_time ve, entry_time ve) of
       (Some b, Some a) \<Rightarrow> Inr (b - a)
     | _ \<Rightarrow> Inl TypeError)"

fun sum_travel :: "highway \<Rightarrow> vid list \<Rightarrow> error + real" where
  "sum_travel hw [] = Inr 0"
| "sum_travel hw (i # is) = ebind (travel_time (vehs hw i)) (\<lambda>d.
     ebind (sum_travel hw is) (\<lambda>r. Inr (d + r)))"

text \<open>The figure printed as \<^verbatim>\<open>Velocidad media\<close> for one class, before the rounding to
  two decimals: \<open>3600 * L_KM\<close> over the mean travel time; nothing when no vehicle of
  the class finished.\<close>

definition trafico_mean_speed :: "config \<Rightarrow> highway \<Rightarrow> vid list \<Rightarrow> error + real option" where
  "trafico_mean_speed cfg hw fin =
     (if fin = [] then Inr None
      else ebind (sum_travel hw fin) (\<lambda>total.
           ebind (py_div total (real (length fin))) (\<lambda>mean_t.
           ebind (py_div (60 * 60 * (ROAD_LENGTH_M cfg / 1000)) mean_t) (\<lambda>kmh. Inr (Some kmh)))))"

definition trafico_report :: "config \<Rightarrow> 'g tsim \<Rightarrow> vtype \<Rightarrow> error + nat \<times> real option" where
  "trafico_report cfg s ty = ebind (trafico_mean_speed cfg (th s) (tst s ty)) (\<lambda>m.
     Inr (length (tst s ty), m))"

text \<open>\<^verbatim>\<open>run_sim\<close> up to the report, for a seeded generator \<open>g\<close> and the wall clock.\<close>

definition trafico_run_sim :: "nat \<Rightarrow> config \<Rightarrow> 'g rng \<Rightarrow> 'g \<Rightarrow> (nat \<Rightarrow> real)
    \<Rightarrow> (error + (vtype \<Rightarrow> error + nat \<times> real option)) option" where
  "trafico_run_sim fuel cfg rnd g clock =
     map_option (\<lambda>res. case res of Inl e \<Rightarrow> Inl e | Inr s \<Rightarrow> Inr (trafico_report cfg s))
       (trafico_loop fuel cfg rnd clock 0 (trafico_init cfg g) (clock 0, 1))"

section \<open>traff.py\<close>

text \<open>The table \<^verbatim>\<open>VEH_TYPES\<close> and the lane speed limits \<^verbatim>\<open>LANE_SPEED_MS\<close>.\<close>

definition traff_length :: "vtype \<Rightarrow> real" where
  "traff_length ty = (case ty of Car \<Rightarrow> 45 / 10 | Truck \<Rightarrow> 12 | Ambulance \<Rightarrow> 45 / 10)"

definition traff_preferred :: "vtype \<Rightarrow> real" where
  "traff_preferred ty = (case ty of Car \<Rightarrow> 120 / (36 / 10) | Truck \<Rightarrow> 85 / (36 / 10)
     | Ambulance \<Rightarrow> 140 / (36 / 10))"

definition traff_accel :: "vtype \<Rightarrow> real" where
  "traff_accel ty = (case ty of Car \<Rightarrow> 15 / 10 | Truck \<Rightarrow> 9 / 10 | Ambulance \<Rightarrow> 2)"

definition traff_priority :: "vtype \<Rightarrow> int" where
  "traff_priority ty = (case ty of Car \<Rightarrow> 2 | Truck \<Rightarrow> 1 | Ambulance \<Rightarrow> 3)"

definition LANE_SPEED_MS :: "real list" where
  "LANE_SPEED_MS = [120 * 1000 / 3600, 100 * 1000 / 3600, 90 * 1000 / 3600]"

text \<open>\<^verbatim>\<open>Vehicle(vtype, lane, entry_time)\<close>\<close>

definition traff_Vehicle :: "vtype \<Rightarrow> int \<Rightarrow> real \<Rightarrow> vehicle" where
  "traff_Vehicle ty l t_entry = \<lparr>vtype = ty, lane = l, x = 0,
     v = traff_preferred ty * (6 / 10), priority = traff_priority ty,
     length_m = traff_length ty, preferred_speed = traff_preferred ty, accel = traff_accel ty,
     entry_time = Some t_entry, exit_time = None, finished = False\<rparr>"

text \<open>\<^verbatim>\<open>desired_top = min(veh.preferred_speed, LANE_SPEED_MS[veh.lane])\<close>\<close>

definition desired_top :: "vehicle \<Rightarrow> error + real" where
  "desired_top ve = ebind (py_idx (length LANE_SPEED_MS) (lane ve)) (\<lambda>k.
     Inr (min (preferred_speed ve) (LANE_SPEED_MS ! k)))"

text \<open>The new speed of vehicle \<open>i\<close> in a frame of simulated duration \<open>sim_dt\<close>.\<close>

definition traff_follow :: "config \<Rightarrow> real \<Rightarrow> highway \<Rightarrow> vid \<Rightarrow> vid option \<Rightarrow> error + real" where
  "traff_follow cfg sim_dt hw i ah =
     (let ve = vehs hw i
      in ebind (desired_top ve) (\<lambda>top.
           case ah of
             Some a \<Rightarrow> ebind (traff_safe_v cfg (follow_gap hw i a)) (\<lambda>safe_v.
               Inr (adjust (v ve) (min top safe_v) (6 * sim_dt) (accel ve * sim_dt)))
           | None \<Rightarrow> Inr (v ve + min (top - v ve) (accel ve * sim_dt))))"

text \<open>The sub-steps of the loop body, in the order of the source: speed update,
  random slowdown, lane change, movement, exit.\<close>

definition traff_speed_phase :: "config \<Rightarrow> real \<Rightarrow> highway \<Rightarrow> vid \<Rightarrow> error + highway" where
  "traff_speed_phase cfg sim_dt hw i = ebind (ahead hw i) (\<lambda>ah.
     ebind (traff_follow cfg sim_dt hw i ah) (\<lambda>sp. Inr (set_v hw i sp)))"

definition slowdown_phase :: "config \<Rightarrow> real \<Rightarrow> highway \<Rightarrow> vid \<Rightarrow> highway" where
  "slowdown_phase cfg r hw i = set_v hw i (slowdown cfg r (v (vehs hw i)))"

definition traff_lane_phase :: "config \<Rightarrow> highway \<Rightarrow> vid \<Rightarrow> error + highway" where
  "traff_lane_phase cfg hw i = ebind (traff_try_lane_change cfg hw i) (\<lambda>res. Inr (fst res))"

definition traff_exit_phase :: "config \<Rightarrow> real \<Rightarrow> highway \<times> (vtype \<Rightarrow> vid list) \<Rightarrow> vid
    \<Rightarrow> error + highway \<times> (vtype \<Rightarrow> vid list)" where
  "traff_exit_phase cfg sim_time hf i = (case hf of (hw, fin) \<Rightarrow>
     if x (vehs hw i) \<ge> ROAD_LENGTH_M cfg
     then (let ve = (vehs hw i)\<lparr>exit_time := Some sim_time, finished := True\<rparr>;
               hw1 = hw\<lparr>vehs := (vehs hw)(i := ve)\<rparr>;
               fin1 = fin(vtype ve := fin (vtype ve) @ [i])
           in ebind (traff_remove_vehicle hw1 i) (\<lambda>hw2. Inr (hw2, fin1)))
     else Inr (hw, fin))"

definition traff_visit :: "config \<Rightarrow> real \<Rightarrow> real \<Rightarrow> real \<Rightarrow> highway \<times> (vtype \<Rightarrow> vid list) \<Rightarrow> vid
    \<Rightarrow> error + highway \<times> (vtype \<Rightarrow> vid list)" where
  "traff_visit cfg sim_dt sim_time r hf i = (case hf of (hw, fin) \<Rightarrow>
     ebind (traff_speed_phase cfg sim_dt hw i) (\<lambda>hw1.
     ebind (traff_lane_phase cfg (slowdown_phase cfg r hw1 i) i) (\<lambda>hw2.
       traff_exit_phase cfg sim_time (integrate sim_dt hw2 i, fin) i)))"

subsection \<open>The main loop of traff\<close>

text \<open>The state of \<^verbatim>\<open>run_pygame_sim\<close>: the highway with its dictionary
  \<^verbatim>\<open>finished_vehicles\<close>, \<^verbatim>\<open>Vehicle._id_counter\<close>, the generator (never seeded by this
  module), \<^verbatim>\<open>next_arrival\<close>, \<^verbatim>\<open>entry_queue\<close>, \<^verbatim>\<open>sim_time\<close>, \<^verbatim>\<open>paused\<close> and
  \<^verbatim>\<open>running\<close>.\<close>

record 'g fsim =
  fh :: highway
  ffin :: "vtype \<Rightarrow> vid list"
  fid :: nat
  fgen :: 'g
  fnext :: real
  fqueue :: "(vtype \<times> real) list"
  ftime :: real
  fpaused :: bool
  frunning :: bool

text \<open>What a frame receives from outside: the pygame events and the milliseconds
  \<^verbatim>\<open>clock.tick(FPS)\<close> reports since the previous frame.\<close>

datatype event = Quit | Space | OtherEvent

fun handle_events :: "event list \<Rightarrow> 'g fsim \<Rightarrow> 'g fsim" where
  "handle_events [] s = s"
| "handle_events (Quit # es) s = handle_events es (s\<lparr>frunning := False\<rparr>)"
| "handle_events (Space # es) s = handle_events es (s\<lparr>fpaused := \<not> fpaused s\<rparr>)"
| "handle_events (OtherEvent # es) s = handle_events es s"

text \<open>The arrival loop \<^verbatim>\<open>while sim_time >= next_arrival and sim_time <= SIM_SECONDS\<close>.
  With a non-positive arrival interval the condition, once true, stays true: the loop
  does not return, which is the value \<open>None\<close>.\<close>

function traff_arrivals :: "config \<Rightarrow> 'g rng \<Rightarrow> real \<Rightarrow> (vtype \<times> real) list \<times> real \<times> 'g
    \<Rightarrow> ((vtype \<times> real) list \<times> real \<times> 'g) option" where
  "traff_arrivals cfg rnd sim_time (q, nxt, g) =
     (if sim_time \<ge> nxt \<and> sim_time \<le> SIM_SECONDS cfg
      then (if ARRIVAL_INTERVAL cfg \<le> 0 then None
            else traff_arrivals cfg rnd sim_time
                   (q @ [(fst (py_choices rnd [Car, Truck, Ambulance] [82 / 100, 15 / 100, 3 / 100] g), sim_time)],
                    nxt + ARRIVAL_INTERVAL cfg,
                    snd (py_choices rnd [Car, Truck, Ambulance] [82 / 100, 15 / 100, 3 / 100] g)))
      else Some (q, nxt, g))"
  by pat_completeness auto
termination
proof (relation "measure (\<lambda>(cfg, rnd, sim_time, q, nxt, g).
         nat (\<lfloor>(sim_time - nxt) / ARRIVAL_INTERVAL cfg\<rfloor> + 1))", goal_cases)
  case 1
  show ?case by simp
next
  case (2 cfg rnd sim_time q nxt g)
  let ?d = "ARRIVAL_INTERVAL cfg"
  from 2 have d: "0 < ?d" and ge: "nxt \<le> sim_time" by auto
  have "(sim_time - (nxt + ?d)) / ?d = (sim_time - nxt) / ?d - 1"
    using d by (simp add: field_simps)
  moreover have "0 \<le> \<lfloor>(sim_time - nxt) / ?d\<rfloor>"
    using d ge by simp
  ultimately show ?case by simp
qed

declare traff_arrivals.simps [simp del]

text \<open>\<^verbatim>\<open>Highway.can_insert_at_start\<close>\<close>

definition can_insert_at_start :: "config \<Rightarrow> highway \<Rightarrow> int \<Rightarrow> real \<Rightarrow> error + bool" where
  "can_insert_at_start cfg hw l veh_length = ebind (py_idx (length (lanes hw)) l) (\<lambda>k.
     Inr (gap_gt (gap_at_entry hw k) (veh_length + MIN_GAP cfg)))"

text \<open>The loop over \<^verbatim>\<open>lane_try in [0,1,2]\<close> for the queue entry \<open>(ty, t_entry)\<close>.\<close>

fun traff_insert :: "config \<Rightarrow> vtype \<times> real \<Rightarrow> int list \<Rightarrow> 'g fsim \<Rightarrow> error + 'g fsim" where
  "traff_insert cfg e [] s = Inr s"
| "traff_insert cfg e (l # ls) s =
     ebind (can_insert_at_start cfg (fh s) l (traff_length (fst e))) (\<lambda>ok.
       if ok
       then ebind (traff_add_vehicle
                    ((fh s)\<lparr>vehs := (vehs (fh s))(fid s := traff_Vehicle (fst e) l (snd e))\<rparr>) (fid s))
              (\<lambda>hw'. Inr (s\<lparr>fh := hw', fid := Suc (fid s), fqueue := remove1 e (fqueue s)\<rparr>))
       else traff_insert cfg e ls s)"

text \<open>Only the first entry of the queue sorted by descending priority is tried.\<close>

definition traff_admit :: "config \<Rightarrow> 'g fsim \<Rightarrow> error + 'g fsim" where
  "traff_admit cfg s =
     (case sort_key (\<lambda>e. - traff_priority (fst e)) (fqueue s) of
        [] \<Rightarrow> Inr s
      | e # _ \<Rightarrow> traff_insert cfg e [0, 1, 2] s)"

fun traff_visit_lane :: "config \<Rightarrow> 'g rng \<Rightarrow> real \<Rightarrow> vid list \<Rightarrow> 'g fsim \<Rightarrow> error + 'g fsim" where
  "traff_visit_lane cfg rnd sim_dt [] s = Inr s"
| "traff_visit_lane cfg rnd sim_dt (i # is) s =
     (let (r, g') = rnd_random rnd (fgen s)
      in ebind (traff_visit cfg sim_dt (ftime s) r (fh s, ffin s) i) (\<lambda>hf.
           traff_visit_lane cfg rnd sim_dt is (s\<lparr>fh := fst hf, ffin := snd hf, fgen := g'\<rparr>)))"

fun traff_lanes_loop :: "config \<Rightarrow> 'g rng \<Rightarrow> real \<Rightarrow> nat list \<Rightarrow> 'g fsim \<Rightarrow> error + 'g fsim" where
  "traff_lanes_loop cfg rnd sim_dt [] s = Inr s"
| "traff_lanes_loop cfg rnd sim_dt (l # ls) s =
     ebind (traff_visit_lane cfg rnd sim_dt (lanes (fh s) ! l) s) (\<lambda>s'.
       traff_lanes_loop cfg rnd sim_dt ls s')"

text \<open>One pass of \<^verbatim>\<open>while running\<close> for the frame input \<open>(events, ms)\<close>.\<close>

definition traff_frame :: "config \<Rightarrow> 'g rng \<Rightarrow> event list \<times> nat \<Rightarrow> 'g fsim \<Rightarrow> (error + 'g fsim) option" where
  "traff_frame cfg rnd fr s0 =
     (let s1 = handle_events (fst fr) s0; real_dt = real (snd fr) / 1000
      in if fpaused s1 then Some (Inr s1)
         else (let sim_dt = real_dt * SPEEDUP cfg; s2 = s1\<lparr>ftime := ftime s1 + sim_dt\<rparr>
               in case traff_arrivals cfg rnd (ftime s2) (fqueue s2, fnext s2, fgen s2) of
                    None \<Rightarrow> None
                  | Some (q, nxt, g) \<Rightarrow>
                      Some (ebind (traff_admit cfg (s2\<lparr>fqueue := q, fnext := nxt, fgen := g\<rparr>)) (\<lambda>s3.
                            ebind (traff_lanes_loop cfg rnd sim_dt [0..<length (lanes (fh s3))] s3) (\<lambda>s4.
                              Inr (if ftime s4 \<ge> SIM_SECONDS cfg then s4\<lparr>frunning := False\<rparr> else s4))))))"

text \<open>\<^verbatim>\<open>while running\<close> over the frames that the environment delivers; \<open>None\<close> when
  the loop is still running after the last of them, or when a frame does not return.\<close>

fun traff_main :: "config \<Rightarrow> 'g rng \<Rightarrow> (event list \<times> nat) list \<Rightarrow> 'g fsim \<Rightarrow> (error + 'g fsim) option" where
  "traff_main cfg rnd [] s = (if frunning s then None else Some (Inr s))"
| "traff_main cfg rnd (fr # frs) s =
     (if frunning s
      then (case traff_frame cfg rnd fr s of
              None \<Rightarrow> None
            | Some (Inl e) \<Rightarrow> Some (Inl e)
            | Some (Inr s') \<Rightarrow> traff_main cfg rnd frs s')
      else Some (Inr s))"

definition traff_init :: "'g \<Rightarrow> 'g fsim" where
  "traff_init g = \<lparr>fh = new_highway 3, ffin = (\<lambda>_. []), fid = 1, fgen = g, fnext = 0,
     fqueue = [], ftime = 0, fpaused = False, frunning = True\<rparr>"

subsection \<open>\<^verbatim>\<open>compute_finished_stats\<close>\<close>

text \<open>The list \<^verbatim>\<open>speeds\<close>: one entry in km/h per finished vehicle with a positive
  travel time.\<close>

fun finished_speeds :: "config \<Rightarrow> highway \<Rightarrow> vid list \<Rightarrow> error + real list" where
  "finished_speeds cfg hw [] = Inr []"
| "finished_speeds cfg hw (i # is) = ebind (travel_time (vehs hw i)) (\<lambda>travel.
     ebind (finished_speeds cfg hw is) (\<lambda>rest.
       Inr (if travel > 0 then (ROAD_LENGTH_M cfg / travel * (36 / 10)) # rest else rest)))"

definition compute_finished_stats :: "config \<Rightarrow> highway \<Rightarrow> (vtype \<Rightarrow> vid list) \<Rightarrow> vtype
    \<Rightarrow> error + nat \<times> real" where
  "compute_finished_stats cfg hw fin ty =
     (if length (fin ty) = 0 then Inr (0, 0)
      else ebind (finished_speeds cfg hw (fin ty)) (\<lambda>speeds.
             Inr (length (fin ty),
                  if speeds \<noteq> [] then sum_list speeds / real (length speeds) else 0)))"

definition run_pygame_sim :: "config \<Rightarrow> 'g rng \<Rightarrow> 'g \<Rightarrow> (event list \<times> nat) list
    \<Rightarrow> (error + (vtype \<Rightarrow> error + nat \<times> real)) option" where
  "run_pygame_sim cfg rnd g frames =
     map_option (\<lambda>res. case res of Inl e \<Rightarrow> Inl e
                       | Inr s \<Rightarrow> Inr (compute_finished_stats cfg (fh s) (ffin s)))
       (traff_main cfg rnd frames (traff_init g))"

section \<open>atascos.py\<close>

definition atascos_priority :: "vtype \<Rightarrow> int" where
  "atascos_priority ty = (case ty of Ambulance \<Rightarrow> 3 | Truck \<Rightarrow> 2 | Car \<Rightarrow> 1)"

text \<open>\<^verbatim>\<open>Vehicle(lane, x, v, type_)\<close>; the class called \<^verbatim>\<open>"emergency"\<close> here is the
  constructor \<open>Ambulance\<close>.\<close>

definition atascos_Vehicle :: "config \<Rightarrow> int \<Rightarrow> real \<Rightarrow> real \<Rightarrow> vtype \<Rightarrow> vehicle" where
  "atascos_Vehicle cfg l x0 v0 ty = \<lparr>vtype = ty, lane = l, x = x0, v = v0,
     priority = atascos_priority ty, length_m = VEHICLE_LENGTH cfg,
     preferred_speed = MAX_SPEED cfg, accel = 3 / 2,
     entry_time = None, exit_time = None, finished = False\<rparr>"

subsection \<open>Arrival\<close>

text \<open>The part of the state that the arrival touches: the object store (in the
  highway), the queues, \<^verbatim>\<open>Vehicle._next_id\<close>, the generator and
  \<^verbatim>\<open>next_arrival_time\<close>.  The class is drawn first, then the lane; the new vehicle
  joins the queue of its own lane.\<close>

record 'g asim =
  a_hw :: highway
  a_queues :: "vid list list"
  a_id :: nat
  a_gen :: 'g
  a_next :: real

definition atascos_arrival :: "config \<Rightarrow> 'g rng \<Rightarrow> real \<Rightarrow> 'g asim \<Rightarrow> error + 'g asim" where
  "atascos_arrival cfg rnd t s =
     (if t \<ge> a_next s
      then (let (ty, g1) = py_choices rnd [Car, Truck, Ambulance] [7 / 10, 25 / 100, 5 / 100] (a_gen s);
                (l, g2) = py_randint rnd 0 (int (NUM_LANES cfg) - 1) g1;
                ve = (atascos_Vehicle cfg l 0 (MAX_SPEED cfg * (6 / 10)) ty)\<lparr>entry_time := Some t\<rparr>
            in ebind (py_idx (length (a_queues s)) l) (\<lambda>k.
                 Inr (s\<lparr>a_hw := (a_hw s)\<lparr>vehs := (vehs (a_hw s))(a_id s := ve)\<rparr>,
                        a_queues := (a_queues s)[k := a_queues s ! k @ [a_id s]],
                        a_id := Suc (a_id s), a_gen := g2,
                        a_next := a_next s + ARRIVAL_INTERVAL cfg\<rparr>)))
      else Inr s)"

subsection \<open>Admission from the per-lane queues\<close>


text \<open>The left-hand side of that comparison: the position of the first vehicle of the
  lane list less one vehicle length; unbounded in an empty lane.\<close>

definition atascos_entry_gap :: "config \<Rightarrow> highway \<Rightarrow> nat \<Rightarrow> gap" where
  "atascos_entry_gap cfg hw k = (case lanes hw ! k of
       [] \<Rightarrow> PosInf
     | f # _ \<Rightarrow> Fin (pos hw f - VEHICLE_LENGTH cfg))"




subsection \<open>The update of one vehicle\<close>




text \<open>The counters of \<^verbatim>\<open>run_simulation\<close>: \<^verbatim>\<open>stats_flow\<close>, \<^verbatim>\<open>total_speed\<close>,
  \<^verbatim>\<open>speed_samples\<close> and \<^verbatim>\<open>lines_written\<close>.\<close>

record counters =
  stats_flow :: nat
  total_speed :: real
  speed_samples :: nat
  lines_written :: nat





text \<open>The speed printed as \<^verbatim>\<open>Velocidad media (muestra)\<close>, in km/h.\<close>

definition atascos_avg_speed_kmh :: "counters \<Rightarrow> real" where
  "atascos_avg_speed_kmh c =
     (if speed_samples c \<noteq> 0 then total_speed c / real (speed_samples c) else 0) * (36 / 10)"

section \<open>a2.py\<close>

text \<open>\<^verbatim>\<open>Vehicle.update_speed_by_lane\<close> with the dictionary \<^verbatim>\<open>LANE_SPEED\<close> (km/h); the
  speed is the field \<open>v\<close>.\<close>

definition LANE_SPEED :: "int \<Rightarrow> real option" where
  "LANE_SPEED l = (if l = 0 then Some 90 else if l = 1 then Some 100 else if l = 2 then Some 120
                   else None)"

definition update_speed_by_lane :: "vehicle \<Rightarrow> error + vehicle" where
  "update_speed_by_lane ve = (case LANE_SPEED (lane ve) of
       None \<Rightarrow> Inl KeyError
     | Some max_lane_speed \<Rightarrow> Inr (if v ve > max_lane_speed then ve\<lparr>v := max_lane_speed\<rparr> else ve))"

section \<open>The statistic of the specification\<close>


section \<open>Predicates of the properties\<close>

text \<open>The speed bound of a vehicle as traff computes its ceiling: between 0 and the
  smaller of the preferred speed of its class and the speed limit of its lane.\<close>

definition speed_in_bounds :: "vehicle \<Rightarrow> bool" where
  "speed_in_bounds ve = (case desired_top ve of
       Inr tp \<Rightarrow> 0 \<le> v ve \<and> v ve \<le> tp
     | Inl e \<Rightarrow> False)"

text \<open>Lane \<open>k\<close> lists its vehicles by non-decreasing position.\<close>

definition lane_sorted :: "highway \<Rightarrow> nat \<Rightarrow> bool" where
  "lane_sorted hw k = sorted (map (pos hw) (lanes hw ! k))"




section \<open>Scenes used in the examples\<close>

text \<open>A highway holding the two vehicle objects 1 and 2 in the given lanes.\<close>

definition example_hw :: "vehicle \<Rightarrow> vehicle \<Rightarrow> vid list list \<Rightarrow> highway" where
  "example_hw a b ls = \<lparr>vehs = (\<lambda>_. empty_vehicle)(1 := a, 2 := b), lanes = ls, allv = [1, 2]\<rparr>"

text \<open>trafico: a car and a truck, both in lane 0.\<close>

definition pair_hw :: highway where
  "pair_hw = example_hw (trafico_Vehicle trafico_cfg 0 Car) (trafico_Vehicle trafico_cfg 0 Truck)
     [[1, 2], [], []]"

text \<open>atascos: a car at the start of lane 0 and a truck 100 m down lane 1.\<close>

definition car_beside_truck :: highway where
  "car_beside_truck = example_hw (atascos_Vehicle atascos_cfg 0 0 20 Car)
     (atascos_Vehicle atascos_cfg 1 100 20 Truck) [[1], [2], []]"

text \<open>trafico: two cars in lane 0, the second 100 m ahead of the first.\<close>

definition car_behind_car :: highway where
  "car_behind_car = example_hw (trafico_Vehicle trafico_cfg 0 Car)
     ((trafico_Vehicle trafico_cfg 0 Car)\<lparr>x := 100\<rparr>) [[1, 2], [], []]"



text \<open>traff: a car at 30 m/s alone in lane 0, a truck far down lane 2.\<close>

definition lone_car :: highway where
  "lone_car = example_hw ((traff_Vehicle Car 0 0)\<lparr>v := 30\<rparr>) ((traff_Vehicle Truck 2 0)\<lparr>x := 500\<rparr>)
     [[1], [], [2]]"

text \<open>traff: a new car at the start of lane 0, another car 10 m ahead of it.\<close>

definition tailgater :: highway where
  "tailgater = example_hw (traff_Vehicle Car 0 0) ((traff_Vehicle Car 0 0)\<lparr>x := 10\<rparr>) [[1, 2], [], []]"


text \<open>A generator whose \<^verbatim>\<open>random()\<close> is always 0.5 and whose \<^verbatim>\<open>_randbelow\<close> is always 0.\<close>

definition const_rng :: "unit rng" where
  "const_rng = \<lparr>rnd_random = (\<lambda>g. (1 / 2, g)), rnd_randbelow = (\<lambda>n g. (0, g))\<rparr>"




text \<open>traff: a car at 2 m/s with another car 1 m ahead of it, closer than its length.\<close>

definition overlapping :: highway where
  "overlapping = example_hw ((traff_Vehicle Car 0 0)\<lparr>v := 2\<rparr>) ((traff_Vehicle Car 0 0)\<lparr>x := 1\<rparr>)
     [[1, 2], [], []]"

text \<open>trafico: a new car in lane 0 behind a car at 10 m doing 6 m/s; lanes 1 and 2 are free.\<close>

definition free_side :: "unit tsim" where
  "free_side = \<lparr>th = example_hw (trafico_Vehicle trafico_cfg 0 Car)
       ((trafico_Vehicle trafico_cfg 0 Car)\<lparr>x := 10, v := 6\<rparr>) [[1, 2], [], []],
     tst = (\<lambda>_. []), tid = 3, tgen = (), tnext = 3 / 2\<rparr>"

text \<open>Two short configurations: traff on a road of 100 m for 4 s with a single arrival,
  trafico on a road of 30 m for 2 s.\<close>

definition short_cfg :: config where
  "short_cfg = traff_cfg\<lparr>ROAD_LENGTH_M := 100, SIM_SECONDS := 4, ARRIVAL_INTERVAL := 1000\<rparr>"

definition tiny_cfg :: config where
  "tiny_cfg = trafico_cfg\<lparr>ROAD_LENGTH_M := 30, SIM_SECONDS := 2\<rparr>"

text \<open>trafico: the truck is in the global list but in no lane list.\<close>

definition stray_hw :: highway where
  "stray_hw = example_hw (trafico_Vehicle trafico_cfg 0 Car) (trafico_Vehicle trafico_cfg 0 Truck)
     [[1], [], []]"




section \<open>Properties\<close>

subsection \<open>Auxiliary facts\<close>

lemma py_idx_valid: "k < n \<Longrightarrow> py_idx n (int k) = Inr k"
  by (simp add: py_idx_def)


subsection \<open>Priority in the lane change\<close>

text \<open>
  Supporting facts for C1.  In trafico and in traff a target lane with sufficient gaps
  is passed over when the nearest vehicle ahead there outranks the candidate; in traff
  an ambulance with sufficient gaps moves whatever the rank of the vehicle ahead.
\<close>

lemma trafico_rejects_outranked:
  "gap_gt (gap_a hw i k) (lane_change_need cfg (v (vehs hw i))) \<Longrightarrow>
   gap_gt (gap_b hw i k) (lane_change_need cfg (v (vehs hw i))) \<Longrightarrow>
   outranked hw i k \<Longrightarrow> trafico_try_target cfg hw i k = None"
  by (simp add: trafico_try_target_def)

lemma traff_rejects_outranked:
  "gap_gt (gap_a hw i k) (max (MIN_GAP cfg) (v (vehs hw i) * SAFE_TIME_HEADWAY cfg)) \<Longrightarrow>
   gap_gt (gap_b hw i k) (max (MIN_GAP cfg) (v (vehs hw i) * SAFE_TIME_HEADWAY cfg)) \<Longrightarrow>
   outranked hw i k \<Longrightarrow> vtype (vehs hw i) \<noteq> Ambulance \<Longrightarrow>
   traff_try_target cfg hw i k = None"
  by (simp add: traff_try_target_def)

lemma gap_gt_mono: "gap_gt g r \<Longrightarrow> r' \<le> r \<Longrightarrow> gap_gt g r'"
  by (cases g) auto

lemma traff_ambulance_bypass:
  "gap_gt (gap_a hw i k) (max (MIN_GAP cfg) (v (vehs hw i) * SAFE_TIME_HEADWAY cfg)) \<Longrightarrow>
   gap_gt (gap_b hw i k) (max (MIN_GAP cfg) (v (vehs hw i) * SAFE_TIME_HEADWAY cfg)) \<Longrightarrow>
   vtype (vehs hw i) = Ambulance \<Longrightarrow>
   traff_try_target cfg hw i k = Some (traff_move_vehicle hw i k)"
  using gap_gt_mono [of _ "max (MIN_GAP cfg) (v (vehs hw i) * SAFE_TIME_HEADWAY cfg)" "MIN_GAP cfg"]
  by (simp add: traff_try_target_def)

text \<open>
  C1 (atascos).  The claim: with sufficient gaps, a lane change is rejected when the
  nearest vehicle ahead in the target lane has a strictly higher priority than the
  candidate, unless the candidate is of the maximum-priority class.  In atascos the
  comparison of priorities guards an empty statement: the car of priority 1 at the
  start of lane 0 moves into lane 1 although the nearest vehicle ahead there is a truck
  of priority 2, and the method returns \<open>True\<close>.
\<close>

theorem atascos_lane_change_ignores_priority:
  "outranked car_beside_truck 1 1
   \<and> vtype (vehs car_beside_truck 1) = Car
   \<and> map_sum id (\<lambda>r. (lanes (fst r), lane (vehs (fst r) 1), snd r))
        (atascos_try_change_lane atascos_cfg car_beside_truck 1)
      = Inr ([[], [1, 2], []], 1, True)"
  by (simp add: car_beside_truck_def example_hw_def atascos_try_change_lane_def
      atascos_try_target_def atascos_move_def enter_lane_def gap_a_def gap_b_def
      nearest_ahead_def nearest_behind_def pos_def num_lanes_def lane_change_need_def
      atascos_Vehicle_def atascos_cfg_def atascos_priority_def ebind_def py_idx_def
      outranked_def Let_def)

subsection \<open>Division by the time headway\<close>

text \<open>
  Supporting facts for C7: atascos and traff clamp the headway from below before
  dividing, so their conversions return a speed for every headway.
\<close>

lemma atascos_safe_v_defined:
  "atascos_safe_v cfg g = Inr (g / max (1 / 10 ^ 6) (SAFE_TIME_HEADWAY cfg))"
  by (simp add: atascos_safe_v_def py_div_def max_def)

lemma traff_safe_v_defined:
  "traff_safe_v cfg g = Inr (g / max (1 / 10) (SAFE_TIME_HEADWAY cfg))"
  by (simp add: traff_safe_v_def py_div_def max_def)

text \<open>
  C7 (trafico).  The claim: every division of a gap by the safe time headway clamps
  the denominator away from zero, so it is defined for every configured headway, zero
  included.  trafico divides by \<^verbatim>\<open>SAFE_TIME_HEADWAY\<close> itself: with the headway
  configured to 0, the update of a car that has another car ahead in its lane raises
  \<^verbatim>\<open>ZeroDivisionError\<close>.
\<close>

theorem trafico_headway_zero_raises:
  "trafico_safe_v (trafico_cfg\<lparr>SAFE_TIME_HEADWAY := 0\<rparr>) g = Inl ZeroDivisionError
   \<and> trafico_visit (trafico_cfg\<lparr>SAFE_TIME_HEADWAY := 0\<rparr>) t r (car_behind_car, st) 1
       = Inl ZeroDivisionError"
  by (simp add: trafico_visit_def trafico_lane_phase_def trafico_speed_phase_def ahead_def
      trafico_follow_def trafico_safe_v_def py_div_def follow_gap_def trafico_trigger_dist_def
      car_behind_car_def example_hw_def trafico_Vehicle_def trafico_cfg_def ebind_def py_idx_def
      pos_def trafico_max_speed_def Let_def)

subsection \<open>Lane-change clearance against the following distance\<close>

text \<open>
  C9, as stated, at the speed 1 m/s in trafico: the clearance required by the lane
  change is 2 m, the distance that triggers the lane change is 1.8 m.
\<close>

theorem clearance_exceeds_trigger_at_low_speed:
  "(0::real) < 1 \<and> \<not> lane_change_need trafico_cfg 1 \<le> trafico_trigger_dist trafico_cfg 1"
  by (simp add: lane_change_need_def trafico_trigger_dist_def trafico_cfg_def)

text \<open>
  C9, amended.  Under the default parameters and for every speed \<open>sp \<ge> 0\<close>: the
  clearance \<open>max(MIN_GAP, sp * headway / 2)\<close> is at most the desired gap
  \<open>sp * headway + MIN_GAP\<close> of atascos, strictly so when \<open>sp > 0\<close>; against the
  trigger distance \<open>sp * headway\<close> of trafico it is at most that distance exactly
  when \<open>sp \<ge> 10/9\<close> and strictly below it exactly when \<open>sp > 10/9\<close>.
\<close>

theorem clearance_vs_following_distance:
  "0 \<le> sp \<Longrightarrow>
     lane_change_need atascos_cfg sp \<le> atascos_desired_gap atascos_cfg sp
   \<and> (0 < sp \<longrightarrow> lane_change_need atascos_cfg sp < atascos_desired_gap atascos_cfg sp)
   \<and> (lane_change_need trafico_cfg sp \<le> trafico_trigger_dist trafico_cfg sp \<longleftrightarrow> 10 / 9 \<le> sp)
   \<and> (lane_change_need trafico_cfg sp < trafico_trigger_dist trafico_cfg sp \<longleftrightarrow> 10 / 9 < sp)"
  by (auto simp add: lane_change_need_def atascos_desired_gap_def atascos_cfg_def
      trafico_cfg_def trafico_trigger_dist_def max_def)

theorem clearance_vs_following_distance_witness:
  "(0::real) \<le> 20 \<and> lane_change_need atascos_cfg 20 < atascos_desired_gap atascos_cfg 20
   \<and> lane_change_need trafico_cfg 20 < trafico_trigger_dist trafico_cfg 20"
  using clearance_vs_following_distance [of 20] by simp

subsection \<open>Removing a vehicle\<close>

text \<open>
  C10, as stated, on trafico: the truck names lane 0 and is not in the list of lane 0,
  but it is in the global list.  Removing it raises nothing and leaves the lanes as
  they are, yet takes the truck out of the global list: the second guard of
  \<^verbatim>\<open>Highway.remove\<close> tests the global list on its own.
\<close>

theorem remove_empties_global_list_alone:
  "lane (vehs stray_hw 2) = 0 \<and> 2 \<notin> set (lanes stray_hw ! 0) \<and> allv stray_hw = [1, 2]
   \<and> map_sum id (\<lambda>hw'. (lanes hw', allv hw')) (remove stray_hw 2) = Inr ([[1], [], []], [1])"
  by (simp add: stray_hw_def example_hw_def trafico_Vehicle_def remove_def ebind_def py_idx_def
      Let_def)

text \<open>Outside the lanes of the highway the lookup of the lane list raises.\<close>

lemma remove_raises_out_of_range:
  "remove (stray_hw\<lparr>vehs := (vehs stray_hw)(2 := (vehs stray_hw 2)\<lparr>lane := 5\<rparr>)\<rparr>) 2 = Inl IndexError"
  by (simp add: stray_hw_def example_hw_def remove_def ebind_def py_idx_def Let_def)

text \<open>
  C10, amended.  Removing a vehicle whose lane index is a lane of the highway raises
  nothing and is guarded by membership, list by list.  A vehicle that is not in the list
  of its lane leaves every lane unchanged; a vehicle that is not in the global list
  leaves the global list unchanged, and one that is in it is taken out of it once; so a
  vehicle in neither list leaves the highway unchanged.  A vehicle in its lane list is
  taken out of it once, and no other lane changes.
\<close>

theorem remove_guarded:
  assumes "lane (vehs hw i) = int k" and "k < length (lanes hw)"
  shows "\<exists>hw'. remove hw i = Inr hw' \<and> vehs hw' = vehs hw
     \<and> length (lanes hw') = length (lanes hw)
     \<and> (\<forall>j. j \<noteq> k \<longrightarrow> lanes hw' ! j = lanes hw ! j)
     \<and> (i \<notin> set (lanes hw ! k) \<longrightarrow> lanes hw' = lanes hw)
     \<and> (i \<notin> set (allv hw) \<longrightarrow> allv hw' = allv hw)
     \<and> (i \<in> set (allv hw) \<longrightarrow> allv hw' = remove1 i (allv hw)
           \<and> mset (allv hw') = mset (allv hw) - {#i#})
     \<and> (i \<notin> set (lanes hw ! k) \<and> i \<notin> set (allv hw) \<longrightarrow> hw' = hw)
     \<and> (i \<in> set (lanes hw ! k) \<longrightarrow> lanes hw' ! k = remove1 i (lanes hw ! k)
           \<and> mset (lanes hw' ! k) = mset (lanes hw ! k) - {#i#})"
  using assms by (auto simp add: remove_def ebind_def py_idx_valid Let_def)

text \<open>A vehicle in both lists, and a vehicle in neither.\<close>

theorem remove_guarded_witness:
  "(\<exists>hw'. remove pair_hw 2 = Inr hw' \<and> lanes hw' ! 0 = [1] \<and> lanes hw' ! 1 = [] \<and> allv hw' = [1])
   \<and> remove pair_hw 3 = Inr pair_hw"
proof -
  have a: "lane (vehs pair_hw 2) = int 0"
    by (simp add: pair_hw_def example_hw_def trafico_Vehicle_def)
  have b: "0 < length (lanes pair_hw)"
    by (simp add: pair_hw_def example_hw_def)
  from remove_guarded [OF a b] obtain hw' where r: "remove pair_hw 2 = Inr hw'"
    and o: "\<forall>j. j \<noteq> 0 \<longrightarrow> lanes hw' ! j = lanes pair_hw ! j"
    and l: "2 \<in> set (lanes pair_hw ! 0) \<longrightarrow> lanes hw' ! 0 = remove1 2 (lanes pair_hw ! 0)"
    and g: "2 \<in> set (allv pair_hw) \<longrightarrow> allv hw' = remove1 2 (allv pair_hw)"
    by blast
  from o have "lanes hw' ! 1 = lanes pair_hw ! 1" by simp
  with r l g have first: "\<exists>hw'. remove pair_hw 2 = Inr hw' \<and> lanes hw' ! 0 = [1]
      \<and> lanes hw' ! 1 = [] \<and> allv hw' = [1]"
    by (simp add: pair_hw_def example_hw_def)
  have c: "lane (vehs pair_hw 3) = int 0"
    by (simp add: pair_hw_def example_hw_def empty_vehicle_def)
  have d: "3 \<notin> set (lanes pair_hw ! 0) \<and> 3 \<notin> set (allv pair_hw)"
    by (simp add: pair_hw_def example_hw_def)
  from remove_guarded [OF c b] d have "remove pair_hw 3 = Inr pair_hw"
    by auto
  with first show ?thesis by blast
qed

text \<open>The same for traff: its removal and the removal inside \<^verbatim>\<open>_move_vehicle\<close>, which
  swallows the \<^verbatim>\<open>ValueError\<close>, take the vehicle out of its lane list at most once.\<close>

lemma traff_remove_vehicle_guarded:
  assumes "lane (vehs hw i) = int k" and "k < length (lanes hw)"
  shows "\<exists>hw'. traff_remove_vehicle hw i = Inr hw' \<and> vehs hw' = vehs hw \<and> allv hw' = allv hw
     \<and> (\<forall>j. j \<noteq> k \<longrightarrow> lanes hw' ! j = lanes hw ! j)
     \<and> (i \<notin> set (lanes hw ! k) \<longrightarrow> hw' = hw)
     \<and> (i \<in> set (lanes hw ! k) \<longrightarrow> lanes hw' ! k = remove1 i (lanes hw ! k))"
  using assms by (auto simp add: traff_remove_vehicle_def ebind_def py_idx_valid)


subsection \<open>Admission from the queues of atascos\<close>









text \<open>In a sorted lane the first vehicle of the list is the vehicle nearest to the
  entry, so the gap of atascos is measured to the nearest vehicle.\<close>

lemma entry_gap_nearest:
  assumes "lane_sorted hw k" and "lanes hw ! k \<noteq> []"
  shows "atascos_entry_gap cfg hw k
       = Fin (Min (pos hw ` set (lanes hw ! k)) - VEHICLE_LENGTH cfg)"
proof -
  from assms(2) obtain f fs where l: "lanes hw ! k = f # fs" by (cases "lanes hw ! k") auto
  with assms(1) have "\<forall>j\<in>set fs. pos hw f \<le> pos hw j"
    by (simp add: lane_sorted_def)
  then have "Min (pos hw ` set (f # fs)) = pos hw f"
    by (intro Min_eqI) auto
  with l show ?thesis by (simp add: atascos_entry_gap_def)
qed

text \<open>The arrival keeps the queues to vehicles created for their lane, as long as the
  identifier it hands out is not queued yet and the lane drawn is a lane.\<close>

lemma arrival_queues_own_lane:
  assumes wf: "\<forall>k<length (a_queues s). \<forall>j\<in>set (a_queues s ! k). lane (vehs (a_hw s) j) = int k"
    and fresh: "\<forall>k<length (a_queues s). a_id s \<notin> set (a_queues s ! k)"
    and low: "0 \<le> fst (py_randint rnd 0 (int (NUM_LANES cfg) - 1)
                       (snd (py_choices rnd [Car, Truck, Ambulance] [7 / 10, 25 / 100, 5 / 100] (a_gen s))))"
    and run: "atascos_arrival cfg rnd t s = Inr s'"
  shows "\<forall>k<length (a_queues s'). \<forall>j\<in>set (a_queues s' ! k). lane (vehs (a_hw s') j) = int k"
proof (cases "t \<ge> a_next s")
  case False
  with run wf show ?thesis by (simp add: atascos_arrival_def)
next
  case True
  obtain ty g1 where c: "py_choices rnd [Car, Truck, Ambulance] [7 / 10, 25 / 100, 5 / 100] (a_gen s) = (ty, g1)"
    by (cases "py_choices rnd [Car, Truck, Ambulance] [7 / 10, 25 / 100, 5 / 100] (a_gen s)")
  obtain l g2 where r: "py_randint rnd 0 (int (NUM_LANES cfg) - 1) g1 = (l, g2)"
    by (cases "py_randint rnd 0 (int (NUM_LANES cfg) - 1) g1")
  from low c r have l0: "0 \<le> l" by simp
  from run True c r obtain k where k: "py_idx (length (a_queues s)) l = Inr k"
    and s': "s' = s\<lparr>a_hw := (a_hw s)\<lparr>vehs := (vehs (a_hw s))(a_id s :=
                 (atascos_Vehicle cfg l 0 (MAX_SPEED cfg * (6 / 10)) ty)\<lparr>entry_time := Some t\<rparr>)\<rparr>,
               a_queues := (a_queues s)[k := a_queues s ! k @ [a_id s]],
               a_id := Suc (a_id s), a_gen := g2, a_next := a_next s + ARRIVAL_INTERVAL cfg\<rparr>"
    by (auto simp add: atascos_arrival_def ebind_def Let_def split: sum.splits)
  from k l0 have kl: "l = int k" and kn: "k < length (a_queues s)"
    by (auto simp add: py_idx_def Let_def split: if_splits)
  show ?thesis
  proof (intro allI impI ballI)
    fix k' j assume a: "k' < length (a_queues s')" and b: "j \<in> set (a_queues s' ! k')"
    show "lane (vehs (a_hw s') j) = int k'"
    proof (cases "j = a_id s")
      case True
      with a b fresh s' kn have "k' = k"
        by (cases "k' = k") auto
      with True s' kl show ?thesis by (simp add: atascos_Vehicle_def)
    next
      case False
      with a b s' kn have "j \<in> set (a_queues s ! k')" and "k' < length (a_queues s)"
        by (cases "k' = k"; simp)+
      with wf False s' show ?thesis by simp
    qed
  qed
qed





subsection \<open>Mean speed of the finished vehicles\<close>











subsection \<open>Speed bounds\<close>

lemmas scene_defs = example_hw_def traff_Vehicle_def traff_cfg_def traff_preferred_def
  traff_priority_def traff_length_def traff_accel_def trafico_Vehicle_def trafico_cfg_def
  trafico_max_speed_def trafico_priority_def

lemmas highway_defs = ahead_def gap_at_entry_def follow_gap_def adjust_def slowdown_def set_v_def integrate_def
  py_div_def enter_lane_def gap_a_def gap_b_def nearest_ahead_def nearest_behind_def pos_def
  num_lanes_def outranked_def ebind_def py_idx_def Let_def

lemmas traff_defs = traff_visit_def traff_speed_phase_def slowdown_phase_def traff_exit_phase_def
  traff_follow_def traff_safe_v_def traff_lane_phase_def traff_try_lane_change_def
  traff_try_target_def traff_move_vehicle_def desired_top_def LANE_SPEED_MS_def

lemmas trafico_defs = trafico_tick_def trafico_arrival_def trafico_dynamics_def
  trafico_visit_def trafico_lane_phase_def trafico_speed_phase_def trafico_exit_phase_def
  trafico_follow_def trafico_safe_v_def trafico_trigger_dist_def trafico_try_lane_change_def
  trafico_try_target_def trafico_move_def lane_change_need_def

text \<open>
  C4, as stated, on the lane change of traff: a car at 30 m/s in lane 0 (limit
  33.3 m/s) is within its bounds; it moves to the free lane 1 (limit 27.8 m/s) with
  its speed unchanged, and is out of its bounds right after the lane change.
\<close>

theorem lane_change_breaks_speed_bound:
  "speed_in_bounds (vehs lone_car 1)
   \<and> (case traff_lane_phase traff_cfg lone_car 1 of
         Inr hw' \<Rightarrow> lane (vehs hw' 1) = 1 \<and> v (vehs hw' 1) = 30 \<and> \<not> speed_in_bounds (vehs hw' 1)
       | Inl e \<Rightarrow> False)"
  by (simp add: speed_in_bounds_def lone_car_def scene_defs highway_defs traff_defs)

lemma adjust_bounds:
  assumes "0 \<le> sp" "sp \<le> tp" "0 \<le> target" "target \<le> tp" "0 \<le> dec" "0 \<le> acc"
  shows "0 \<le> adjust sp target dec acc \<and> adjust sp target dec acc \<le> tp"
  using assms by (auto simp add: adjust_def min_def)

lemma slowdown_bounds: "0 \<le> sp \<Longrightarrow> 0 \<le> slowdown cfg r sp \<and> slowdown cfg r sp \<le> sp"
  by (simp add: slowdown_def max_def)

lemma traff_follow_bounds:
  assumes tp: "desired_top (vehs hw i) = Inr tp"
    and v0: "0 \<le> v (vehs hw i)" and v1: "v (vehs hw i) \<le> tp"
    and dt: "0 \<le> sim_dt" and ac: "0 \<le> accel (vehs hw i)"
    and gap: "\<forall>a. ah = Some a \<longrightarrow> 0 \<le> follow_gap hw i a"
  shows "\<exists>sp. traff_follow cfg sim_dt hw i ah = Inr sp \<and> 0 \<le> sp \<and> sp \<le> tp"
proof (cases ah)
  case None
  have "0 \<le> accel (vehs hw i) * sim_dt" using dt ac by simp
  with None tp v0 v1 show ?thesis
    by (auto simp add: traff_follow_def ebind_def Let_def min_def)
next
  case (Some a)
  let ?s = "follow_gap hw i a / max (1 / 10) (SAFE_TIME_HEADWAY cfg)"
  from gap Some have "0 \<le> ?s" by (simp add: max_def)
  with v0 v1 have t: "0 \<le> min tp ?s" "min tp ?s \<le> tp" by auto
  have "0 \<le> 6 * sim_dt" "0 \<le> accel (vehs hw i) * sim_dt" using dt ac by auto
  from adjust_bounds [OF v0 v1 t this]
  show ?thesis using Some tp
    by (simp add: traff_follow_def ebind_def Let_def traff_safe_v_defined)
qed

text \<open>A lane change touches no field of a vehicle but \<open>lane\<close>.\<close>

lemma try_offsets_field:
  assumes "\<And>k d h. body k d = Some (Inr h) \<Longrightarrow> f (vehs h j) = f (vehs hw j)"
  shows "try_offsets body hw i ds = Inr (hw', b) \<Longrightarrow> f (vehs hw' j) = f (vehs hw j)"
  using assms
  by (induction ds) (auto simp add: Let_def split: if_splits option.splits sum.splits)

lemma traff_lane_phase_field:
  assumes inv: "\<And>ve l. f (ve\<lparr>lane := l\<rparr>) = f ve"
    and run: "traff_lane_phase cfg hw i = Inr hw'"
  shows "f (vehs hw' j) = f (vehs hw j)"
proof -
  from run obtain b where r: "traff_try_lane_change cfg hw i = Inr (hw', b)"
    by (auto simp add: traff_lane_phase_def ebind_def split: sum.splits)
  have m: "\<And>k h. traff_move_vehicle hw i k = Inr h \<Longrightarrow> f (vehs h j) = f (vehs hw j)"
    by (auto simp add: traff_move_vehicle_def ebind_def enter_lane_def Let_def inv
        split: sum.splits)
  have "\<And>k d h. traff_try_target cfg hw i k = Some (Inr h) \<Longrightarrow> f (vehs h j) = f (vehs hw j)"
    by (auto simp add: traff_try_target_def Let_def m split: if_splits)
  with r show ?thesis
    unfolding traff_try_lane_change_def by (rule try_offsets_field [rotated])
qed

text \<open>
  C4, amended.  In traff, for a vehicle whose speed is between 0 and the smaller of its
  class ceiling and the ceiling of its lane, with a non-negative frame duration and
  acceleration and no vehicle ahead closer than its own length: the bound holds after
  the car-following update and after the random slowdown; the lane change leaves the
  speed as it is, so after it the speed is still between 0 and the class ceiling.
\<close>

theorem traff_speed_stays_in_bounds:
  assumes "speed_in_bounds (vehs hw i)" and "0 \<le> sim_dt" and "0 \<le> accel (vehs hw i)"
    and "ahead hw i = Inr ah" and "\<forall>a. ah = Some a \<longrightarrow> 0 \<le> follow_gap hw i a"
  shows "\<exists>hw1. traff_speed_phase cfg sim_dt hw i = Inr hw1
     \<and> speed_in_bounds (vehs hw1 i)
     \<and> speed_in_bounds (vehs (slowdown_phase cfg r hw1 i) i)
     \<and> (\<forall>hw2. traff_lane_phase cfg (slowdown_phase cfg r hw1 i) i = Inr hw2 \<longrightarrow>
           v (vehs hw2 i) = v (vehs (slowdown_phase cfg r hw1 i) i)
         \<and> 0 \<le> v (vehs hw2 i) \<and> v (vehs hw2 i) \<le> preferred_speed (vehs hw2 i))"
proof -
  from assms(1) obtain tp where tp: "desired_top (vehs hw i) = Inr tp"
    and v0: "0 \<le> v (vehs hw i)" and v1: "v (vehs hw i) \<le> tp"
    by (auto simp add: speed_in_bounds_def split: sum.splits)
  from traff_follow_bounds [OF tp v0 v1 assms(2,3,5), of cfg]
  obtain sp where sp: "traff_follow cfg sim_dt hw i ah = Inr sp" and b: "0 \<le> sp" "sp \<le> tp"
    by blast
  let ?hw1 = "set_v hw i sp"
  let ?hw2 = "slowdown_phase cfg r ?hw1 i"
  have run: "traff_speed_phase cfg sim_dt hw i = Inr ?hw1"
    using assms(4) sp by (simp add: traff_speed_phase_def ebind_def)
  have d1: "desired_top (vehs ?hw1 i) = Inr tp" and d2: "desired_top (vehs ?hw2 i) = Inr tp"
    using tp by (simp_all add: set_v_def slowdown_phase_def desired_top_def)
  have s1: "speed_in_bounds (vehs ?hw1 i)"
    using b d1 by (simp add: speed_in_bounds_def set_v_def)
  have vs: "v (vehs ?hw2 i) = slowdown cfg r sp"
    by (simp add: slowdown_phase_def set_v_def)
  with slowdown_bounds [OF b(1), of cfg r] b
  have b2: "0 \<le> v (vehs ?hw2 i)" "v (vehs ?hw2 i) \<le> tp" by auto
  then have s2: "speed_in_bounds (vehs ?hw2 i)"
    using d2 by (simp add: speed_in_bounds_def)
  from d2 have "tp \<le> preferred_speed (vehs ?hw2 i)"
    by (auto simp add: desired_top_def ebind_def split: sum.splits)
  with b2 have b3: "v (vehs ?hw2 i) \<le> preferred_speed (vehs ?hw2 i)" by simp
  have "v (vehs hw2 i) = v (vehs ?hw2 i) \<and> 0 \<le> v (vehs hw2 i)
      \<and> v (vehs hw2 i) \<le> preferred_speed (vehs hw2 i)"
    if "traff_lane_phase cfg ?hw2 i = Inr hw2" for hw2
    using traff_lane_phase_field [of v, OF _ that, of i]
      traff_lane_phase_field [of preferred_speed, OF _ that, of i] b2 b3
    by simp
  with run s1 s2 show ?thesis by blast
qed

theorem traff_speed_stays_in_bounds_witness:
  "\<exists>hw1. traff_speed_phase traff_cfg 1 tailgater 1 = Inr hw1
     \<and> v (vehs hw1 1) = 14 \<and> speed_in_bounds (vehs hw1 1)
     \<and> speed_in_bounds (vehs (slowdown_phase traff_cfg (1 / 2) hw1 1) 1)"
proof -
  have a: "speed_in_bounds (vehs tailgater 1)"
    by (simp add: speed_in_bounds_def tailgater_def scene_defs highway_defs traff_defs)
  have b: "(0::real) \<le> 1" and c: "0 \<le> accel (vehs tailgater 1)"
    by (simp_all add: tailgater_def scene_defs)
  have d: "ahead tailgater 1 = Inr (Some 2)"
    by (simp add: tailgater_def scene_defs highway_defs)
  have e: "\<forall>a. Some 2 = Some a \<longrightarrow> 0 \<le> follow_gap tailgater 1 a"
    by (simp add: tailgater_def scene_defs highway_defs)
  have f: "traff_speed_phase traff_cfg 1 tailgater 1 = Inr (set_v tailgater 1 14)"
    by (simp add: tailgater_def scene_defs highway_defs traff_defs)
  from traff_speed_stays_in_bounds [OF a b c d e, of traff_cfg "1 / 2"] f
  show ?thesis by (auto simp add: set_v_def)
qed

text \<open>The clamp of a2: after \<^verbatim>\<open>update_speed_by_lane\<close> the speed is at most the limit
  of the lane, and it is never raised.\<close>

lemma update_speed_by_lane_bound:
  "update_speed_by_lane ve = Inr ve' \<Longrightarrow>
   \<exists>lim. LANE_SPEED (lane ve') = Some lim \<and> v ve' \<le> lim \<and> v ve' \<le> v ve"
  by (auto simp add: update_speed_by_lane_def split: option.splits if_splits)


subsection \<open>Order of the lanes\<close>

lemma up3: "[0..<3] = [0, 1, 2]"
  by (simp add: upt_rec)


lemma pos_lanes_update [simp]: "pos (hw\<lparr>lanes := ls\<rparr>) = pos hw"
  by (simp add: pos_def fun_eq_iff)

lemma pos_allv_update [simp]: "pos (hw\<lparr>allv := ls\<rparr>) = pos hw"
  by (simp add: pos_def fun_eq_iff)










subsection \<open>Order of lane change and speed update\<close>








text \<open>Supporting fact for C6: the tick loop of trafico takes its copy of a lane when it
  reaches the lane, so a vehicle that moved to a lane of higher index is visited again
  in the same tick.  The new car leaves lane 0 for lane 1 and is updated twice: it ends
  the tick at 23 m/s and 44.5 m, where one visit gives 21.5 m/s and 21.5 m.\<close>

lemma tick_visits_lane_changer_twice:
  "(case trafico_tick trafico_cfg const_rng 1 free_side of
      Inr s' \<Rightarrow> lanes (th s') = [[2], [1], []] \<and> v (vehs (th s') 1) = 23
                \<and> pos (th s') 1 = 89 / 2
    | Inl e \<Rightarrow> False)
   \<and> (case trafico_visit trafico_cfg 1 (1 / 2) (th free_side, tst free_side) 1 of
        Inr hs \<Rightarrow> v (vehs (fst hs) 1) = 43 / 2 \<and> pos (fst hs) 1 = 43 / 2
      | Inl e \<Rightarrow> False)"
  by (simp add: free_side_def const_rng_def up3 scene_defs highway_defs trafico_defs)

text \<open>Supporting fact for C4: with the vehicle ahead closer than one vehicle length the
  gap is negative, and the car-following update of traff returns a negative speed.\<close>

lemma follow_speed_negative_on_overlap:
  "follow_gap overlapping 1 2 = - (7 / 2)
   \<and> traff_follow traff_cfg 1 overlapping 1 (Some 2) = Inr (- (35 / 18))"
  by (simp add: overlapping_def scene_defs highway_defs traff_defs)

subsection \<open>Determinism\<close>

lemmas traff_run_defs = run_pygame_sim_def traff_init_def new_highway_def traff_frame_def
  traff_admit_def can_insert_at_start_def traff_add_vehicle_def traff_remove_vehicle_def
  compute_finished_stats_def travel_time_def py_choices_def const_rng_def short_cfg_def
  traff_arrivals.simps

lemmas trafico_run_defs = trafico_run_sim_def trafico_init_def new_highway_def trafico_redraw_def
  trafico_can_enter_def add_def remove_def trafico_report_def trafico_mean_speed_def
  travel_time_def py_choices_def py_shuffle_def const_rng_def tiny_cfg_def

text \<open>
  C8, as stated, on traff: two complete runs with the same configuration and the same
  generator, one fed four frames of 10 ms and the other a frame of 10 ms and one of
  30 ms.  One car finishes in both; its mean speed is 180 km/h in the first run and
  120 km/h in the second.
\<close>

theorem traff_runs_differ_with_frame_times:
  "(case run_pygame_sim short_cfg const_rng () [([], 10), ([], 10), ([], 10), ([], 10)] of
      Some (Inr f) \<Rightarrow> f Car = Inr (1, 180)
    | _ \<Rightarrow> False)
   \<and> (case run_pygame_sim short_cfg const_rng () [([], 10), ([], 30)] of
        Some (Inr f) \<Rightarrow> f Car = Inr (1, 120)
      | _ \<Rightarrow> False)"
  by (simp add: traff_run_defs scene_defs highway_defs traff_defs up3)

lemma trafico_loop_clock:
  "trafico_loop n cfg rnd clock t s vz = trafico_loop n cfg rnd clock' t s vz'"
  by (induction n arbitrary: t s vz vz')
     (auto simp add: trafico_redraw_def ebind_def split: sum.splits prod.splits)

text \<open>
  C8, amended.  In trafico the per-class counts and mean speeds that a run reports are
  a function of the configuration and of the seeded generator alone: the wall-clock
  readings that pace the drawing do not influence them.  (In traff the frame durations
  reported by the clock enter the simulation, and the generator is not seeded.)
\<close>

theorem trafico_run_ignores_clock:
  "trafico_run_sim fuel cfg rnd g clock = trafico_run_sim fuel cfg rnd g clock'"
  unfolding trafico_run_sim_def
  using trafico_loop_clock [of fuel cfg rnd clock 0 "trafico_init cfg g" "(clock 0, 1)"
      clock' "(clock' 0, 1)"]
  by simp

text \<open>A complete run of two ticks, under two clocks: one car enters, crosses the 30 m
  within a second and is reported with 108 km/h.\<close>

theorem trafico_run_ignores_clock_witness:
  "(case trafico_run_sim 2 tiny_cfg const_rng () (\<lambda>n. real n) of
      Some (Inr f) \<Rightarrow> f Car = Inr (1, Some 108) \<and> f Truck = Inr (0, None)
    | _ \<Rightarrow> False)"
proof -
  have "(case trafico_run_sim 2 tiny_cfg const_rng () (\<lambda>n. 0) of
      Some (Inr f) \<Rightarrow> f Car = Inr (1, Some 108) \<and> f Truck = Inr (0, None)
    | _ \<Rightarrow> False)"
    by (simp add: trafico_run_defs scene_defs highway_defs trafico_defs up3 numeral_2_eq_2)
  then show ?thesis
    using trafico_run_ignores_clock [of 2 tiny_cfg const_rng "()" "\<lambda>n. real n" "\<lambda>n. 0"]
    by simp
qed

end
